theory Spec2Isabelle
  imports Complex_Main "HOL-Library.Word" "HOL-Library.AList" "HOL-Library.Product_Lexorder"
begin

section \<open>ALF dataset generation (phylib.io.alf)\<close>

text \<open>
  A shallow embedding of \<^verbatim>\<open>phylib/io/alf.py\<close>. Python exceptions are values of
  the type \<open>error\<close>; a function that may raise returns \<open>error + 'a\<close> with \<open>Inl\<close> for
  the exception. Array indices and identifiers are natural numbers, array values are
  real numbers (the rounding of floating-point arithmetic is not part of the model).
\<close>

subsection \<open>Exceptions\<close>

datatype error =
    IOError
  | NotImplementedError
  | ValueError
  | IndexError
  | KeyError
  | TypeError
  | AssertionError
  | FileNotFoundError
  | LiteralError

definition bindE :: "error + 'a \<Rightarrow> ('a \<Rightarrow> error + 'b) \<Rightarrow> error + 'b" where
  "bindE x f = (case x of Inl e \<Rightarrow> Inl e | Inr v \<Rightarrow> f v)"

fun mapE :: "('a \<Rightarrow> error + 'b) \<Rightarrow> 'a list \<Rightarrow> error + 'b list" where
  "mapE f [] = Inr []"
| "mapE f (x # xs) =
     (case f x of Inl e \<Rightarrow> Inl e
      | Inr y \<Rightarrow> (case mapE f xs of Inl e \<Rightarrow> Inl e | Inr ys \<Rightarrow> Inr (y # ys)))"

definition getE :: "'a list \<Rightarrow> nat \<Rightarrow> error + 'a" where
  \<comment> \<open>\<^verbatim>\<open>xs[i]\<close> for a non-negative index: IndexError out of range.\<close>
  "getE xs i = (if i < length xs then Inr (xs ! i) else Inl IndexError)"

subsection \<open>The header of an array file\<close>

type_synonym byte = "8 word"

datatype pyval =
    PyBytes "byte list"
  | PyInt int
  | PyStr string
  | PyBool bool
  | PyTuple "pyval list"
  | PyNone

type_synonym pydict = "string \<rightharpoonup> pyval"

definition from_bytes_little :: "byte list \<Rightarrow> nat" where
  \<comment> \<open>\<^verbatim>\<open>int.from_bytes(b, byteorder='little')\<close>\<close>
  "from_bytes_little bs = foldr (\<lambda>b acc. unat b + 256 * acc) bs 0"

text \<open>
  \<^verbatim>\<open>_read_npy_header\<close> on the bytes of the file. \<^verbatim>\<open>fid.read(n)\<close> returns at most
  \<open>n\<close> bytes and fewer at the end of the file, which is \<open>take\<close>. The parameter
  \<open>literal_eval\<close> stands for \<^verbatim>\<open>ast.literal_eval(b.decode())\<close> of the Python
  library, merged as a dictionary: it returns the dictionary or the exception raised
  while decoding, parsing or unpacking.
\<close>

definition read_npy_header ::
  "(byte list \<Rightarrow> error + pydict) \<Rightarrow> byte list \<Rightarrow> error + pydict" where
  "read_npy_header literal_eval file =
     (let magic_string = take 6 file;
          version = take 2 (drop 6 file);
          len = from_bytes_little (take 2 (drop 8 file));
          d = [''magic_string'' \<mapsto> PyBytes magic_string,
               ''version'' \<mapsto> PyBytes version,
               ''len'' \<mapsto> PyInt (int len)]
      in case literal_eval (take len (drop 10 file)) of
           Inl e \<Rightarrow> Inl e
         | Inr h \<Rightarrow> Inr (d ++ h))"

text \<open>A literal evaluator that knows one header text, and a file with a wrong signature.\<close>

definition header_text :: "byte list" where
  "header_text = map (\<lambda>c. of_nat (of_char c)) ''{'shape': (3, 1)}''"

definition eval_header_text :: "byte list \<Rightarrow> error + pydict" where
  "eval_header_text b =
     (if b = header_text then Inr [''shape'' \<mapsto> PyTuple [PyInt 3, PyInt 1]]
      else Inl LiteralError)"

definition bad_magic_file :: "byte list" where
  "bad_magic_file = [0, 0, 0, 0, 0, 0] @ [9, 9] @ [18, 0] @ header_text"

subsection \<open>Sparse projection\<close>

text \<open>
  An array of shape \<open>[..., n_local]\<close>: the innermost vectors run over the local channel
  slots, the outer levels are the axes in between.
\<close>

datatype 'a nd = Vec "'a list" | Arr "'a nd list"

fun nd_leaves :: "'a nd \<Rightarrow> 'a list list" where
  "nd_leaves (Vec v) = [v]"
| "nd_leaves (Arr xs) = concat (map nd_leaves xs)"

fun nd_all2 :: "('a list \<Rightarrow> 'b list \<Rightarrow> bool) \<Rightarrow> 'a nd \<Rightarrow> 'b nd \<Rightarrow> bool" where
  "nd_all2 P (Vec v) (Vec w) = P v w"
| "nd_all2 P (Arr xs) (Arr ys) = list_all2 (nd_all2 P) xs ys"
| "nd_all2 P (Vec v) (Arr ys) = False"
| "nd_all2 P (Arr xs) (Vec w) = False"

text \<open>
  Modelled from the spec: \<^verbatim>\<open>from_sparse\<close> of \<^verbatim>\<open>phylib/io/model.py\<close> is not among
  the sources (only its test is). Section 4.3 of the specification: the output entry for
  the requested id \<open>channel_ids[j]\<close> in row \<open>r\<close> is the data value at the local slot where
  that id stands in \<open>cols[r]\<close>, and 0 when the id is absent from \<open>cols[r]\<close>; a duplicate
  among the requested ids fails with NotSupportedError (\<^verbatim>\<open>NotImplementedError\<close> in the
  test).
\<close>

fun project_row :: "nat list \<Rightarrow> nat list \<Rightarrow> ('a::zero) nd \<Rightarrow> 'a nd" where
  "project_row cs ids (Vec v) =
     Vec (map (\<lambda>c. case map_of (zip cs v) c of None \<Rightarrow> 0 | Some x \<Rightarrow> x) ids)"
| "project_row cs ids (Arr xs) = Arr (map (project_row cs ids) xs)"

definition from_sparse ::
  "('a::zero) nd list \<Rightarrow> nat list list \<Rightarrow> nat list \<Rightarrow> error + 'a nd list" where
  "from_sparse rows colmap channel_ids =
     (if \<not> distinct channel_ids then Inl NotImplementedError
      else Inr (map2 (\<lambda>cs row. project_row cs channel_ids row) colmap rows))"

subsection \<open>The sorting result\<close>

text \<open>
  Distances with \<^verbatim>\<open>np.inf\<close>: a finite value is below \<open>PInf\<close>.
\<close>

datatype dist = Fin real | PInf

instantiation dist :: linorder
begin

fun less_eq_dist :: "dist \<Rightarrow> dist \<Rightarrow> bool" where
  "less_eq_dist (Fin a) (Fin b) = (a \<le> b)"
| "less_eq_dist (Fin a) PInf = True"
| "less_eq_dist PInf (Fin b) = False"
| "less_eq_dist PInf PInf = True"

definition less_dist :: "dist \<Rightarrow> dist \<Rightarrow> bool" where
  "less_dist a b = (a \<le> b \<and> \<not> b \<le> a)"

instance
proof
  fix x y z :: dist
  show "(x < y) = (x \<le> y \<and> \<not> y \<le> x)" by (simp add: less_dist_def)
  show "x \<le> x" by (cases x) simp_all
  show "x \<le> y \<Longrightarrow> y \<le> z \<Longrightarrow> x \<le> z" by (cases x; cases y; cases z) simp_all
  show "x \<le> y \<Longrightarrow> y \<le> x \<Longrightarrow> x = y" by (cases x; cases y) simp_all
  show "x \<le> y \<or> y \<le> x" by (cases x; cases y) auto
qed

end

text \<open>
  A three-dimensional array with its shape, and a sparse tensor: \<open>cols\<close> is \<open>None\<close> for a
  dense tensor and the array of global channel ids per row otherwise.
\<close>

record array3 =
  shape0 :: nat
  shape1 :: nat
  shape2 :: nat
  items :: "real list list list"

record sparse =
  data :: array3
  cols :: "nat list list option"

text \<open>The attributes of the \<^verbatim>\<open>TemplateModel\<close> that the conversion reads.\<close>

record model =
  dir_path :: string
  spike_clusters :: "nat list"
  spike_times :: "real list"
  spike_samples :: "nat list"
  amplitudes :: "real list"
  templates_channels :: "nat list"
  templates_waveforms_durations :: "real list"
  templates_amplitudes :: "real list"
  channel_probes :: "nat list"
  channel_mapping :: "nat list"
  channel_positions :: "real list list"
  sparse_features :: "sparse option"
  sparse_templates :: sparse
  n_templates :: nat

subsection \<open>Template waveforms on the nearest channels\<close>

definition NCH_WAVEFORMS :: nat where
  "NCH_WAVEFORMS = 32"


definition argsort_stable :: "('a::linorder) list \<Rightarrow> nat list" where
  "argsort_stable ks = sort_key (\<lambda>i. ks ! i) [0..<length ks]"


text \<open>
  The truth value of \<^verbatim>\<open>sparse_templates.cols\<close> in \<^verbatim>\<open>if self.model.sparse_templates.cols:\<close>.
  \<open>None\<close> is false. A numpy array with more than one element has no truth value
  (\<^verbatim>\<open>ValueError\<close>), one with a single element has the truth value of that element, an
  empty one is false.
\<close>

definition truth_value :: "nat list list option \<Rightarrow> error + bool" where
  "truth_value c =
     (case c of
        None \<Rightarrow> Inr False
      | Some a \<Rightarrow>
          (case concat a of
             [] \<Rightarrow> Inr False
           | [x] \<Rightarrow> Inr (x \<noteq> 0)
           | x # y # zs \<Rightarrow> Inl ValueError))"

definition l1_distance :: "real list \<Rightarrow> real list \<Rightarrow> real" where
  \<comment> \<open>\<^verbatim>\<open>np.sum(np.abs(p - q))\<close> of two position rows\<close>
  "l1_distance p q = sum_list (map2 (\<lambda>a b. \<bar>a - b\<bar>) p q)"

definition channel_distance :: "model \<Rightarrow> real list \<Rightarrow> nat \<Rightarrow> dist list" where
  \<comment> \<open>the distances to the peak position, \<^verbatim>\<open>+= np.inf\<close> on the other probes\<close>
  "channel_distance m peak_pos current_probe =
     map2 (\<lambda>pos probe. if probe \<noteq> current_probe then PInf else Fin (l1_distance pos peak_pos))
       (channel_positions m) (channel_probes m)"

definition assign_row :: "nat \<Rightarrow> 'a list \<Rightarrow> error + 'a list" where
  \<comment> \<open>\<^verbatim>\<open>a[t, :] = v\<close> for a row of length \<open>n\<close>: a single value is broadcast\<close>
  "assign_row n v =
     (if length v = n then Inr v
      else if length v = 1 then Inr (replicate n (hd v))
      else Inl ValueError)"

definition template_inds ::
  "(dist list \<Rightarrow> nat list) \<Rightarrow> model \<Rightarrow> nat \<Rightarrow> nat \<Rightarrow> error + nat list" where
  \<comment> \<open>one round of the loop: the row \<^verbatim>\<open>templates_inds[t, :]\<close>\<close>
  "template_inds argsort m ncw t =
     bindE (getE (templates_channels m) t) (\<lambda>peak.
     bindE (getE (channel_probes m) peak) (\<lambda>current_probe.
     bindE (getE (channel_positions m) peak) (\<lambda>peak_pos.
       if length (channel_probes m) \<noteq> length (channel_positions m) then Inl IndexError
       else assign_row ncw (take ncw (argsort (channel_distance m peak_pos current_probe))))))"

definition template_waveform ::
  "model \<Rightarrow> nat \<Rightarrow> nat list \<Rightarrow> error + real list list" where
  \<comment> \<open>\<^verbatim>\<open>sparse_templates.data[t, :][:, inds]\<close>\<close>
  "template_waveform m t inds =
     (if \<exists>c \<in> set inds. shape2 (data (sparse_templates m)) \<le> c then Inl IndexError
      else bindE (getE (items (data (sparse_templates m))) t) (\<lambda>w.
             mapE (\<lambda>row. mapE (getE row) inds) w))"

definition make_template_object ::
  "(dist list \<Rightarrow> nat list) \<Rightarrow> model \<Rightarrow> real \<Rightarrow> error + real list list list \<times> nat list list" where
  "make_template_object argsort m ampfactor =
     bindE (truth_value (cols (sparse_templates m))) (\<lambda>sparse_cols.
       if sparse_cols then Inl NotImplementedError
       else
         let nchall = shape2 (data (sparse_templates m));
             ncw = min NCH_WAVEFORMS nchall
         in if shape0 (data (sparse_templates m)) \<noteq> n_templates m then Inl AssertionError
            else
              bindE (mapE (\<lambda>t. bindE (template_inds argsort m ncw t) (\<lambda>inds.
                                 bindE (template_waveform m t inds) (\<lambda>w. Inr (w, inds))))
                       [0..<shape0 (data (sparse_templates m))]) (\<lambda>rows.
                Inr (map (\<lambda>(w, inds). map (map (\<lambda>x. x * ampfactor)) w) rows,
                     map snd rows)))"

text \<open>Two channels on two probes, one dense template with its peak on channel 0.\<close>

definition two_probes :: model where
  "two_probes =
     \<lparr> dir_path = ''ks'',
       spike_clusters = [0, 0],
       spike_times = [1 / 10, 2 / 10],
       spike_samples = [3000, 6000],
       amplitudes = [5, 7],
       templates_channels = [0],
       templates_waveforms_durations = [1 / 2],
       templates_amplitudes = [6],
       channel_probes = [0, 1],
       channel_mapping = [0, 1],
       channel_positions = [[0, 0], [0, 20]],
       sparse_features = None,
       sparse_templates =
         \<lparr> data = \<lparr> shape0 = 1, shape1 = 1, shape2 = 2, items = [[[1, 2]]] \<rparr>, cols = None \<rparr>,
       n_templates = 1 \<rparr>"


text \<open>The same layout with a column map, and a single template on a single channel.\<close>

definition two_probes_sparse :: model where
  "two_probes_sparse =
     two_probes \<lparr> sparse_templates :=
       \<lparr> data = \<lparr> shape0 = 1, shape1 = 1, shape2 = 2, items = [[[1, 2]]] \<rparr>,
         cols = Some [[0, 1]] \<rparr> \<rparr>"

definition one_slot_sparse :: model where
  "one_slot_sparse =
     two_probes \<lparr> sparse_templates :=
       \<lparr> data = \<lparr> shape0 = 1, shape1 = 1, shape2 = 1, items = [[[1]]] \<rparr>,
         cols = Some [[0]] \<rparr> \<rparr>"

subsection \<open>Depths\<close>

text \<open>
  The product \<^verbatim>\<open>ypos * features\<close> of two rows: numpy stretches a row with a single
  entry to the length of the other one and rejects any other difference in length.
\<close>

definition broadcast2 :: "'a list \<Rightarrow> 'b list \<Rightarrow> error + ('a \<times> 'b) list" where
  "broadcast2 xs ys =
     (if length xs = length ys then Inr (zip xs ys)
      else if length xs = 1 then Inr (map (\<lambda>y. (hd xs, y)) ys)
      else if length ys = 1 then Inr (map (\<lambda>x. (x, hd ys)) xs)
      else Inl ValueError)"

text \<open>
  One entry of \<^verbatim>\<open>np.sum(np.transpose(ypos * features) / np.sum(features, axis=1), axis=0)\<close>:
  every product is divided by the sum of the weights of the row, and the quotients are
  added. A row of weights that adds up to zero gives \<^verbatim>\<open>nan\<close>, which is \<open>None\<close>.
\<close>

definition weighted_depth :: "real list \<Rightarrow> real list \<Rightarrow> error + real option" where
  "weighted_depth ypos features =
     bindE (broadcast2 ypos features) (\<lambda>yf.
       if yf \<noteq> [] \<and> sum_list features = 0 then Inr None
       else Inr (Some (sum_list (map (\<lambda>(y, f). y * f / sum_list features) yf))))"

text \<open>
  The body of the loop for the spikes \<open>ispi\<close>: the squares of the first component
  \<^verbatim>\<open>data[ispi, :, 0]\<close>, the channels \<^verbatim>\<open>cols[spike_clusters[ispi]]\<close>, their vertical
  coordinates \<^verbatim>\<open>channel_positions[ichannels, 1]\<close>, and the weighted depth of every
  spike of the batch.
\<close>

definition batch_depths :: "model \<Rightarrow> sparse \<Rightarrow> nat list \<Rightarrow> error + real option list" where
  "batch_depths m sf ispi =
     bindE (mapE (\<lambda>s. bindE (getE (items (data sf)) s)
                    (mapE (\<lambda>pcs. bindE (getE pcs 0) (\<lambda>x. Inr (x * x))))) ispi) (\<lambda>features.
     bindE (mapE (getE (spike_clusters m)) ispi) (\<lambda>clu.
     bindE (case cols sf of None \<Rightarrow> Inl TypeError | Some cs \<Rightarrow> mapE (getE cs) clu) (\<lambda>ichannels.
     bindE (mapE (mapE (\<lambda>ch. bindE (getE (channel_positions m) ch) (\<lambda>pos. getE pos 1)))
              ichannels) (\<lambda>ypos.
     mapE (\<lambda>(y, f). weighted_depth y f) (zip ypos features)))))"

text \<open>\<^verbatim>\<open>spikes_depths[ispi] = vs\<close> for the consecutive indices \<open>ispi\<close> that start at \<open>c\<close>.\<close>

definition assign_slice :: "'a list \<Rightarrow> nat \<Rightarrow> 'a list \<Rightarrow> 'a list" where
  "assign_slice a c vs = take c a @ vs @ drop (c + length vs) a"

text \<open>
  The loop \<^verbatim>\<open>while True: ... c += nbatch; if c >= nspi: break\<close> with the batch size
  as a parameter (the source fixes it to 50000). With a batch size of zero the source
  would never leave the loop: the result \<open>None\<close> stands for a loop that does not end.
\<close>

partial_function (option) depths_loop ::
  "(nat list \<Rightarrow> error + real option list) \<Rightarrow> nat \<Rightarrow> nat \<Rightarrow> nat \<Rightarrow> real option list
     \<Rightarrow> (error + real option list) option" where
  "depths_loop batch nbatch nspi c spikes_depths =
     (case batch [c..<min (c + nbatch) nspi] of
        Inl e \<Rightarrow> Some (Inl e)
      | Inr ds \<Rightarrow>
          (if c + nbatch \<ge> nspi then Some (Inr (assign_slice spikes_depths c ds))
           else depths_loop batch nbatch nspi (c + nbatch) (assign_slice spikes_depths c ds)))"

declare depths_loop.simps [code]

text \<open>
  The branch of \<^verbatim>\<open>make_depths\<close> for a model with features:
  \<^verbatim>\<open>spikes_depths = np.zeros_like(spike_times)\<close>, then the loop from \<open>c = 0\<close>.
\<close>

definition spikes_depths_batched ::
  "nat \<Rightarrow> model \<Rightarrow> sparse \<Rightarrow> (error + real option list) option" where
  "spikes_depths_batched nbatch m sf =
     depths_loop (batch_depths m sf) nbatch (length (spike_times m)) 0
       (replicate (length (spike_times m)) (Some 0))"

text \<open>Two spikes with features on the two local channels 0 and 1.\<close>

definition pc_features :: sparse where
  "pc_features =
     \<lparr> data = \<lparr> shape0 = 2, shape1 = 2, shape2 = 1, items = [[[1], [2]], [[3], [1]]] \<rparr>,
       cols = Some [[0, 1]] \<rparr>"

subsection \<open>Files\<close>

text \<open>
  A file holds an array (its shape and its values in row-major order, \<open>None\<close> for
  \<^verbatim>\<open>nan\<close>) or any other bytes. \<^verbatim>\<open>np.save\<close> writes an array file and \<^verbatim>\<open>np.load\<close>
  reads one back. A path is a directory and a file name; the directory is kept in its
  resolved form. The journal records every change of the file system in order, and
  \<open>drawn\<close> counts the identifiers that \<^verbatim>\<open>uuid.uuid4\<close> has handed out so far.
\<close>

datatype content =
    IntArray "nat list" "int list"
  | FloatArray "nat list" "real option list"
  | Text string

type_synonym path = "string \<times> string"

datatype action =
    Mkdir string
  | Write path
  | Copy path path
  | Unlink path
  | Rename path path

record fsys =
  dirs :: "string list"
  files :: "(path \<times> content) list"
  journal :: "action list"
  drawn :: nat

text \<open>
  What the conversion takes from the operating system, from libraries and from the
  other modules of the package: \<^verbatim>\<open>Path.resolve\<close>, \<^verbatim>\<open>np.argsort\<close>,
  \<^verbatim>\<open>ast.literal_eval\<close>, the stream of identifiers of \<^verbatim>\<open>uuid.uuid4\<close> (the \<open>n\<close>-th
  identifier that is handed out), and \<^verbatim>\<open>load_model\<close> of \<^verbatim>\<open>phylib.io.model\<close>, which reads
  the dataset of a settings file: it may raise, it changes no file, and the model that it
  returns is not kept here.
\<close>

record env =
  path_resolve :: "string \<Rightarrow> string"
  np_argsort :: "dist list \<Rightarrow> nat list"
  ast_literal_eval :: "byte list \<Rightarrow> error + pydict"
  uuid_uuid4 :: "nat \<Rightarrow> string"
  load_model :: "fsys \<Rightarrow> path \<Rightarrow> error option"

type_synonym stage = "fsys \<Rightarrow> error option \<times> fsys"

definition ok :: stage where
  "ok fs = (None, fs)"

definition raise :: "error \<Rightarrow> stage" where
  "raise e fs = (Some e, fs)"

definition and_then :: "stage \<Rightarrow> stage \<Rightarrow> stage" where
  "and_then f g fs = (case f fs of (None, fs') \<Rightarrow> g fs' | (Some e, fs') \<Rightarrow> (Some e, fs'))"

definition with_value :: "error + 'a \<Rightarrow> ('a \<Rightarrow> stage) \<Rightarrow> stage" where
  "with_value x f = (case x of Inl e \<Rightarrow> raise e | Inr v \<Rightarrow> f v)"

fun for_each :: "('a \<Rightarrow> stage) \<Rightarrow> 'a list \<Rightarrow> stage" where
  "for_each f [] = ok"
| "for_each f (x # xs) = and_then (f x) (for_each f xs)"

definition join :: "env \<Rightarrow> string \<Rightarrow> string \<Rightarrow> path" where
  \<comment> \<open>\<^verbatim>\<open>directory / name\<close>\<close>
  "join e d name = (path_resolve e d, name)"

definition file_exists :: "fsys \<Rightarrow> path \<Rightarrow> bool" where
  "file_exists fs p = (map_of (files fs) p \<noteq> None)"

definition dir_exists :: "env \<Rightarrow> fsys \<Rightarrow> string \<Rightarrow> bool" where
  "dir_exists e fs d = (path_resolve e d \<in> set (dirs fs))"

definition mkdir :: "env \<Rightarrow> string \<Rightarrow> stage" where
  "mkdir e d fs =
     (None, fs \<lparr> dirs := dirs fs @ [path_resolve e d],
                 journal := journal fs @ [Mkdir (path_resolve e d)] \<rparr>)"

definition write_file :: "path \<Rightarrow> content \<Rightarrow> stage" where
  \<comment> \<open>creates or replaces the file; the directory has to exist\<close>
  "write_file p c fs =
     (if fst p \<notin> set (dirs fs) then (Some FileNotFoundError, fs)
      else (None, fs \<lparr> files := AList.update p c (files fs),
                       journal := journal fs @ [Write p] \<rparr>))"

definition ends_with :: "string \<Rightarrow> string \<Rightarrow> bool" where
  "ends_with s suf = (length suf \<le> length s \<and> drop (length s - length suf) s = suf)"

definition np_save :: "path \<Rightarrow> content \<Rightarrow> stage" where
  \<comment> \<open>\<^verbatim>\<open>np.save\<close> appends \<^verbatim>\<open>.npy\<close> to a name without it\<close>
  "np_save p arr =
     write_file (fst p, if ends_with (snd p) ''.npy'' then snd p else snd p @ ''.npy'') arr"

definition np_load :: "fsys \<Rightarrow> path \<Rightarrow> error + content" where
  "np_load fs p =
     (case map_of (files fs) p of
        None \<Rightarrow> Inl FileNotFoundError
      | Some (Text s) \<Rightarrow> Inl ValueError
      | Some arr \<Rightarrow> Inr arr)"

definition suffix :: "string \<Rightarrow> string" where
  \<comment> \<open>\<^verbatim>\<open>Path.suffix\<close>: from the last dot, unless the dot is the first or last character\<close>
  "suffix name =
     (let after = length (takeWhile (\<lambda>c. c \<noteq> CHR ''.'') (rev name));
          i = length name - 1 - after
      in if CHR ''.'' \<in> set name \<and> 0 < i \<and> 0 < after then drop i name else [])"

definition with_suffix :: "string \<Rightarrow> string \<Rightarrow> error + string" where
  \<comment> \<open>\<^verbatim>\<open>Path.with_suffix\<close> on the name, for a new suffix that starts with a dot\<close>
  "with_suffix name suf =
     (if CHR ''/'' \<in> set suf \<or> suf = ''.'' \<or> name = [] then Inl ValueError
      else if suffix name = [] then Inr (name @ suf)
      else Inr (take (length name - length (suffix name)) name @ suf))"

subsection \<open>Copying the files of the sorter\<close>

definition FILE_RENAMES :: "(string \<times> string \<times> bool option) list" where
  "FILE_RENAMES =
     [(''params.py'', ''params.py'', None),
      (''cluster_metrics.csv'', ''clusters.metrics.csv'', None),
      (''spike_clusters.npy'', ''spikes.clusters.npy'', Some True),
      (''spike_templates.npy'', ''spikes.templates.npy'', Some True),
      (''channel_positions.npy'', ''channels.localCoordinates.npy'', Some False),
      (''channel_probe.npy'', ''channels.probes.npy'', Some True),
      (''cluster_probes.npy'', ''clusters.probes.npy'', Some True),
      (''cluster_shanks.npy'', ''clusters.shanks.npy'', Some True)]"

definition FILE_DELETES :: "string list" where
  "FILE_DELETES = [''temp_wh.dat'']"

text \<open>
  Modelled from the spec: \<^verbatim>\<open>ensure_dir_exists\<close> of \<^verbatim>\<open>phylib/utils/_misc.py\<close> is not
  among the sources. Section 4.2: "create destination's parent directory".
\<close>

definition ensure_dir_exists :: "string \<Rightarrow> stage" where
  "ensure_dir_exists d fs =
     (if d \<in> set (dirs fs) then (None, fs)
      else (None, fs \<lparr> dirs := dirs fs @ [d], journal := journal fs @ [Mkdir d] \<rparr>))"

definition create_if_possible :: "path \<Rightarrow> path \<Rightarrow> bool \<Rightarrow> fsys \<Rightarrow> bool \<times> fsys" where
  "create_if_possible p new_path force fs =
     (if \<not> file_exists fs p then (False, fs)
      else if file_exists fs new_path \<and> \<not> force then (False, fs)
      else (True, snd (ensure_dir_exists (fst new_path) fs)))"

definition copy_if_possible :: "path \<Rightarrow> path \<Rightarrow> bool \<Rightarrow> fsys \<Rightarrow> bool \<times> fsys" where
  "copy_if_possible p new_path force fs =
     (case create_if_possible p new_path force fs of
        (False, fs') \<Rightarrow> (False, fs')
      | (True, fs') \<Rightarrow>
          (True, fs' \<lparr> files := AList.update new_path (the (map_of (files fs') p)) (files fs'),
                       journal := journal fs' @ [Copy p new_path] \<rparr>))"

definition bytes_of :: "string \<Rightarrow> byte list" where
  "bytes_of s = map (\<lambda>c. of_nat (of_char c)) s"

definition header_shape :: "env \<Rightarrow> content \<Rightarrow> error + pyval" where
  \<comment> \<open>\<^verbatim>\<open>_read_npy_header(f0)['shape']\<close>: an array file declares its shape\<close>
  "header_shape e c =
     (case c of
        IntArray sh vs \<Rightarrow> Inr (PyTuple (map (\<lambda>n. PyInt (int n)) sh))
      | FloatArray sh vs \<Rightarrow> Inr (PyTuple (map (\<lambda>n. PyInt (int n)) sh))
      | Text s \<Rightarrow>
          bindE (read_npy_header (ast_literal_eval e) (bytes_of s)) (\<lambda>h.
            case h ''shape'' of None \<Rightarrow> Inl KeyError | Some v \<Rightarrow> Inr v))"

definition is_column :: "pyval \<Rightarrow> error + bool" where
  \<comment> \<open>\<^verbatim>\<open>len(shape) == 2 and shape[-1] == 1\<close>\<close>
  "is_column shape =
     (case shape of
        PyTuple vs \<Rightarrow> Inr (length vs = 2 \<and> (last vs = PyInt 1 \<or> last vs = PyBool True))
      | PyBytes bs \<Rightarrow> Inr (length bs = 2 \<and> last bs = 1)
      | PyStr s \<Rightarrow> Inr False
      | PyInt i \<Rightarrow> Inl TypeError
      | PyBool b \<Rightarrow> Inl TypeError
      | PyNone \<Rightarrow> Inl TypeError)"

definition squeeze :: "content \<Rightarrow> content" where
  \<comment> \<open>\<^verbatim>\<open>d.squeeze()\<close> drops every axis of length one\<close>
  "squeeze c =
     (case c of
        IntArray sh vs \<Rightarrow> IntArray (filter (\<lambda>n. n \<noteq> 1) sh) vs
      | FloatArray sh vs \<Rightarrow> FloatArray (filter (\<lambda>n. n \<noteq> 1) sh) vs
      | Text s \<Rightarrow> Text s)"

definition copy_file_entry ::
  "env \<Rightarrow> model \<Rightarrow> string \<Rightarrow> bool \<Rightarrow> string \<times> string \<times> bool option \<Rightarrow> stage" where
  \<comment> \<open>one round of the loop of \<^verbatim>\<open>copy_files\<close>\<close>
  "copy_file_entry e m out_path force entry fs =
     (case entry of (fn0, fn1, sq) \<Rightarrow>
        let f0 = join e (dir_path m) fn0;
            f1 = join e out_path fn1;
            fs1 = snd (copy_if_possible f0 f1 force fs)
        in if file_exists fs1 f0 \<and> sq = Some True \<and> suffix fn0 = ''.npy'' then
             with_value (header_shape e (the (map_of (files fs1) f0))) (\<lambda>shape.
             with_value (is_column shape) (\<lambda>column.
               if column then
                 with_value (np_load fs1 f0) (\<lambda>d. np_save f1 (squeeze d))
               else ok)) fs1
           else (None, fs1))"

definition copy_files :: "env \<Rightarrow> model \<Rightarrow> string \<Rightarrow> bool \<Rightarrow> stage" where
  "copy_files e m out_path force = for_each (copy_file_entry e m out_path force) FILE_RENAMES"

definition rm_files :: "env \<Rightarrow> model \<Rightarrow> stage" where
  "rm_files e m =
     for_each (\<lambda>fn0 fs.
        let fn = join e (dir_path m) fn0
        in if file_exists fs fn
           then (None, fs \<lparr> files := AList.delete fn (files fs),
                             journal := journal fs @ [Unlink fn] \<rparr>)
           else (None, fs))
       FILE_DELETES"

subsection \<open>The objects of the converted dataset\<close>

definition ints1 :: "nat list \<Rightarrow> content" where
  "ints1 xs = IntArray [length xs] (map int xs)"

definition floats1 :: "real list \<Rightarrow> content" where
  "floats1 xs = FloatArray [length xs] (map Some xs)"

definition save_npy :: "env \<Rightarrow> string \<Rightarrow> string \<Rightarrow> content \<Rightarrow> stage" where
  \<comment> \<open>\<^verbatim>\<open>_save_npy\<close>: \<^verbatim>\<open>np.save(self.out_path / filename, arr)\<close>\<close>
  "save_npy e out_path filename arr = np_save (join e out_path filename) arr"

definition make_spike_times_amplitudes :: "env \<Rightarrow> model \<Rightarrow> string \<Rightarrow> real \<Rightarrow> stage" where
  "make_spike_times_amplitudes e m out_path ampfactor =
     and_then (save_npy e out_path ''spikes.times.npy'' (floats1 (spike_times m)))
    (and_then (save_npy e out_path ''spikes.samples.npy'' (ints1 (spike_samples m)))
              (save_npy e out_path ''spikes.amps.npy''
                 (floats1 (map (\<lambda>a. a * ampfactor) (amplitudes m)))))"

text \<open>
  Modelled from the spec: \<^verbatim>\<open>_unique\<close> of \<^verbatim>\<open>phylib/io/array.py\<close> is not among the
  sources. Section 4.6: the observed cluster ids, in ascending order.
\<close>

definition cluster_ids :: "model \<Rightarrow> nat list" where
  "cluster_ids m = sort (remdups (spike_clusters m))"

definition cluster_amps :: "model \<Rightarrow> error + real option list" where
  \<comment> \<open>\<^verbatim>\<open>camps\<close>: \<^verbatim>\<open>nan\<close> everywhere, then the amplitudes at \<^verbatim>\<open>cluster_ids - min\<close>\<close>
  "cluster_amps m =
     (let ids = cluster_ids m in
      if ids = [] then Inl ValueError
      else
        let lo = Min (set ids); hi = Max (set ids);
            camps = replicate (hi - lo + 1) None;
            vals = templates_amplitudes m
        in bindE (if length vals = length ids then Inr vals
                  else if length vals = 1 then Inr (replicate (length ids) (hd vals))
                  else Inl ValueError) (\<lambda>vs.
             Inr (fold (\<lambda>(c, v) a. a[c - lo := Some v]) (zip ids vs) camps)))"

definition join_lines :: "string list \<Rightarrow> string" where
  \<comment> \<open>\<^verbatim>\<open>'\n'.join(lines)\<close>\<close>
  "join_lines ls = (case ls of [] \<Rightarrow> [] | l # rest \<Rightarrow> l @ concat (map (\<lambda>x. CHR 0x0A # x) rest))"

definition make_cluster_objects :: "env \<Rightarrow> model \<Rightarrow> string \<Rightarrow> real \<Rightarrow> stage" where
  "make_cluster_objects e m out_path ampfactor =
     and_then (\<lambda>fs. if \<not> file_exists fs (join e (dir_path m) ''clusters.channels.npy'')
                    then save_npy e out_path ''clusters.channels.npy'' (ints1 (templates_channels m)) fs
                    else (None, fs))
    (and_then (\<lambda>fs. if \<not> file_exists fs (join e (dir_path m) ''clusters.peakToTrough.npy'')
                    then save_npy e out_path ''clusters.peakToTrough.npy''
                           (floats1 (templates_waveforms_durations m)) fs
                    else (None, fs))
    (with_value (cluster_amps m) (\<lambda>camps.
       and_then (save_npy e out_path ''clusters.amps.npy''
                   (FloatArray [length camps] (map (map_option (\<lambda>a. a * ampfactor)) camps)))
                (\<lambda>fs. write_file (join e out_path ''clusters.uuids.csv'')
                        (Text (join_lines (''uuids'' #
                           map (uuid_uuid4 e) [drawn fs..<drawn fs + length camps])))
                        (fs \<lparr> drawn := drawn fs + length camps \<rparr>)))))"

definition raw_ind :: "model \<Rightarrow> error + int list" where
  \<comment> \<open>the loop of \<^verbatim>\<open>make_channel_objects\<close> over the probes in ascending order; the
      channel map is read as signed integers wide enough for the differences (an array of
      unsigned integers would wrap around below zero)\<close>
  "raw_ind m =
     fst (fold (\<lambda>probe (acc, channel_offset).
            case acc of
              Inl err \<Rightarrow> (Inl err, channel_offset)
            | Inr rawInd \<Rightarrow>
                if length (channel_mapping m) \<noteq> length (channel_probes m)
                then (Inl IndexError, channel_offset)
                else
                  let ind = filter (\<lambda>i. channel_probes m ! i = probe) [0..<length (channel_probes m)]
                  in (Inr (fold (\<lambda>i a. a[i := int (channel_mapping m ! i) - channel_offset]) ind rawInd),
                      channel_offset + int (Max (set (map (\<lambda>i. channel_mapping m ! i) ind)))))
          (sort (remdups (channel_probes m)))
          (Inr (replicate (length (channel_probes m)) 0), 0))"

definition make_channel_objects :: "env \<Rightarrow> model \<Rightarrow> string \<Rightarrow> stage" where
  "make_channel_objects e m out_path =
     with_value (raw_ind m) (\<lambda>rawInd.
       save_npy e out_path ''channels.rawInd.npy'' (IntArray [length rawInd] rawInd))"

definition getI :: "'a list \<Rightarrow> int \<Rightarrow> error + 'a" where
  \<comment> \<open>an index read from a file: a negative one counts from the end\<close>
  "getI xs i =
     (if 0 \<le> i then getE xs (nat i)
      else if nat (- i) \<le> length xs then Inr (xs ! (length xs - nat (- i)))
      else Inl IndexError)"

definition clusters_depths :: "model \<Rightarrow> content \<Rightarrow> error + real list" where
  \<comment> \<open>\<^verbatim>\<open>channel_positions[cluster_channels, 1]\<close> for the array loaded from the file;
      column 1 is out of range for positions with a single column, whatever the indices\<close>
  "clusters_depths m cluster_channels =
     (case cluster_channels of
        IntArray sh vs \<Rightarrow>
          if length sh \<noteq> 1 then Inl AssertionError
          else if \<exists>pos \<in> set (channel_positions m). length pos < 2 then Inl IndexError
          else mapE (\<lambda>ch. bindE (getI (channel_positions m) ch) (\<lambda>pos. getE pos 1)) vs
      | FloatArray sh vs \<Rightarrow> if length sh \<noteq> 1 then Inl AssertionError else Inl IndexError
      | Text s \<Rightarrow> Inl ValueError)"

definition default_nbatch :: nat where
  \<comment> \<open>\<^verbatim>\<open>nbatch = 50000\<close>\<close>
  "default_nbatch = 50000"

definition make_depths :: "env \<Rightarrow> model \<Rightarrow> string \<Rightarrow> fsys \<Rightarrow> (error option \<times> fsys) option" where
  "make_depths e m out_path fs =
     (case bindE (np_load fs (join e out_path ''clusters.channels.npy'')) (clusters_depths m) of
        Inl err \<Rightarrow> Some (Some err, fs)
      | Inr cdepths \<Rightarrow>
          (case (case sparse_features m of
                   None \<Rightarrow> Some (bindE (mapE (getE cdepths) (spike_clusters m))
                                   (\<lambda>ds. Inr (map Some ds)))
                 | Some sf \<Rightarrow> spikes_depths_batched default_nbatch m sf) of
             None \<Rightarrow> None
           | Some (Inl err) \<Rightarrow> Some (Some err, fs)
           | Some (Inr sdepths) \<Rightarrow>
               Some (and_then (save_npy e out_path ''spikes.depths.npy''
                                 (FloatArray [length sdepths] sdepths))
                              (save_npy e out_path ''clusters.depths.npy'' (floats1 cdepths)) fs)))"

definition save_templates :: "env \<Rightarrow> model \<Rightarrow> string \<Rightarrow> real \<Rightarrow> stage" where
  \<comment> \<open>\<^verbatim>\<open>make_template_object\<close> with its four \<^verbatim>\<open>np.save\<close>\<close>
  "save_templates e m out_path ampfactor =
     with_value (make_template_object (np_argsort e) m ampfactor) (\<lambda>(templates, templates_inds).
       let ncw = min NCH_WAVEFORMS (shape2 (data (sparse_templates m)));
           w = FloatArray [n_templates m, shape1 (data (sparse_templates m)), ncw]
                 (map Some (concat (concat templates)));
           c = IntArray [n_templates m, ncw] (map int (concat templates_inds))
       in and_then (np_save (join e out_path ''templates.waveforms'') w)
         (and_then (np_save (join e out_path ''templates.waveformsChannels'') c)
         (and_then (np_save (join e out_path ''clusters.waveforms'') w)
                   (np_save (join e out_path ''clusters.waveformsChannels'') c))))"

definition rename_file :: "path \<Rightarrow> path \<Rightarrow> stage" where
  \<comment> \<open>\<^verbatim>\<open>Path.rename\<close>: replaces the target\<close>
  "rename_file p q fs =
     (case map_of (files fs) p of
        None \<Rightarrow> (Some FileNotFoundError, fs)
      | Some c \<Rightarrow>
          (None, fs \<lparr> files := AList.update q c (AList.delete p (files fs)),
                      journal := journal fs @ [Rename p q] \<rparr>))"

definition glob :: "env \<Rightarrow> fsys \<Rightarrow> string \<Rightarrow> string \<Rightarrow> string list" where
  \<comment> \<open>the names in the directory that start with \<open>pre\<close> (the pattern \<^verbatim>\<open>pre*\<close>)\<close>
  "glob e fs d pre =
     map snd (filter (\<lambda>p. fst p = path_resolve e d \<and> take (length pre) (snd p) = pre)
                (map fst (files fs)))"

definition rename_with_label :: "env \<Rightarrow> string \<Rightarrow> string \<Rightarrow> stage" where
  "rename_with_label e out_path label =
     (if label = [] then ok
      else for_each (\<lambda>pre fs.
             for_each (\<lambda>name.
                with_value (with_suffix name (''.'' @ label @ suffix name)) (\<lambda>new_name.
                  rename_file (join e out_path name) (join e out_path new_name)))
               (glob e fs out_path pre) fs)
           [''channels.'', ''clusters.'', ''spikes.'', ''templates.''])"

definition convert ::
  "env \<Rightarrow> model \<Rightarrow> string \<Rightarrow> bool \<Rightarrow> string \<Rightarrow> real \<Rightarrow> fsys \<Rightarrow> (error option \<times> fsys) option" where
  "convert e m out_path force label ampfactor fs =
     (if path_resolve e out_path = path_resolve e (dir_path m) then Some (Some IOError, fs)
      else
        case and_then (\<lambda>fs. if \<not> dir_exists e fs out_path then mkdir e out_path fs else (None, fs))
            (and_then (copy_files e m out_path force)
            (and_then (make_spike_times_amplitudes e m out_path ampfactor)
            (and_then (make_cluster_objects e m out_path ampfactor)
                      (make_channel_objects e m out_path)))) fs of
          (Some err, fs1) \<Rightarrow> Some (Some err, fs1)
        | (None, fs1) \<Rightarrow>
            (case make_depths e m out_path fs1 of
               None \<Rightarrow> None
             | Some (Some err, fs2) \<Rightarrow> Some (Some err, fs2)
             | Some (None, fs2) \<Rightarrow>
                 Some (and_then (save_templates e m out_path ampfactor)
                      (and_then (rm_files e m)
                      (and_then (rename_with_label e out_path label)
                                (\<lambda>fs. if file_exists fs (join e out_path ''params.py'')
                                      then (load_model e fs (join e out_path ''params.py''), fs)
                                      else (None, fs)))) fs2)))"

text \<open>
  An environment where every path is its own resolved form and the converted dataset
  loads, and a source directory with a settings file and a column vector of spike
  clusters.
\<close>

definition posix :: env where
  "posix =
     \<lparr> path_resolve = (\<lambda>p. p),
       np_argsort = argsort_stable,
       ast_literal_eval = eval_header_text,
       uuid_uuid4 = (\<lambda>n. replicate (Suc n) CHR ''u''),
       load_model = (\<lambda>fs p. None) \<rparr>"

definition ks_dir :: fsys where
  "ks_dir =
     \<lparr> dirs = [''ks''],
       files = [((''ks'', ''params.py''), Text ''x = 1''),
                ((''ks'', ''spike_clusters.npy''), IntArray [2, 1] [0, 0])],
       journal = [],
       drawn = 0 \<rparr>"

subsection \<open>The footprint of a stage\<close>

text \<open>
  The paths whose content an action may change, and the paths it takes away.
\<close>

fun touched :: "action \<Rightarrow> path set" where
  "touched (Mkdir d) = {}"
| "touched (Write p) = {p}"
| "touched (Copy p q) = {q}"
| "touched (Unlink p) = {p}"
| "touched (Rename p q) = {p, q}"

fun removed :: "action \<Rightarrow> path set" where
  "removed (Mkdir d) = {}"
| "removed (Write p) = {}"
| "removed (Copy p q) = {}"
| "removed (Unlink p) = {p}"
| "removed (Rename p q) = {p}"

text \<open>
  \<open>extends fs fs' new\<close>: the state \<open>fs'\<close> comes from \<open>fs\<close> by the actions \<open>new\<close>, which
  the journal records; a path that no action touches keeps its content, a file that
  no action takes away still exists, directories are never removed and identifiers
  are never handed out twice.
\<close>

definition extends :: "fsys \<Rightarrow> fsys \<Rightarrow> action list \<Rightarrow> bool" where
  "extends fs fs' new =
     (journal fs' = journal fs @ new \<and>
      (\<forall>p. (\<forall>a \<in> set new. p \<notin> touched a) \<longrightarrow> map_of (files fs') p = map_of (files fs) p) \<and>
      (\<forall>p. file_exists fs p \<longrightarrow> (\<forall>a \<in> set new. p \<notin> removed a) \<longrightarrow> file_exists fs' p) \<and>
      set (dirs fs) \<subseteq> set (dirs fs') \<and>
      drawn fs \<le> drawn fs')"

definition stable :: "(fsys \<Rightarrow> bool) \<Rightarrow> action set \<Rightarrow> bool" where
  "stable P S = (\<forall>fs fs' new. P fs \<longrightarrow> extends fs fs' new \<longrightarrow> set new \<subseteq> S \<longrightarrow> P fs')"

definition footprint :: "(fsys \<Rightarrow> bool) \<Rightarrow> action set \<Rightarrow> stage \<Rightarrow> bool" where
  "footprint P S st =
     (\<forall>fs. P fs \<longrightarrow> (\<exists>new. extends fs (snd (st fs)) new \<and> set new \<subseteq> S \<and> P (snd (st fs))))"

text \<open>The stages of \<^verbatim>\<open>convert\<close> before and after \<^verbatim>\<open>make_depths\<close>, and the names
  of the objects that every complete conversion writes.\<close>

definition first_stages :: "env \<Rightarrow> model \<Rightarrow> string \<Rightarrow> bool \<Rightarrow> real \<Rightarrow> stage" where
  "first_stages e m out_path force ampfactor =
     and_then (\<lambda>fs. if \<not> dir_exists e fs out_path then mkdir e out_path fs else (None, fs))
    (and_then (copy_files e m out_path force)
    (and_then (make_spike_times_amplitudes e m out_path ampfactor)
    (and_then (make_cluster_objects e m out_path ampfactor)
              (make_channel_objects e m out_path))))"

definition last_stages :: "env \<Rightarrow> model \<Rightarrow> string \<Rightarrow> string \<Rightarrow> real \<Rightarrow> stage" where
  "last_stages e m out_path label ampfactor =
     and_then (save_templates e m out_path ampfactor)
    (and_then (rm_files e m)
    (and_then (rename_with_label e out_path label)
              (\<lambda>fs. if file_exists fs (join e out_path ''params.py'')
                    then (load_model e fs (join e out_path ''params.py''), fs)
                    else (None, fs))))"



subsection \<open>The statements of the specification\<close>

text \<open>
  Section 4.3 in the words of the specification: \<open>w\<close> is the projection of the vector \<open>v\<close>
  with local channel ids \<open>cs\<close> on the requested ids.
\<close>

definition is_projection :: "nat list \<Rightarrow> nat list \<Rightarrow> ('a::zero) list \<Rightarrow> 'a list \<Rightarrow> bool" where
  "is_projection cs ids v w =
     (length w = length ids \<and>
      (\<forall>j<length ids.
         (\<forall>i<length cs. cs ! i = ids ! j \<longrightarrow> w ! j = v ! i) \<and>
         (ids ! j \<notin> set cs \<longrightarrow> w ! j = 0)))"


section \<open>Properties\<close>

subsection \<open>The header reader\<close>

lemma read_npy_header_prefix:
  assumes "length pre = 8"
  shows "read_npy_header ev (pre @ rest) =
     (case ev (take (from_bytes_little (take 2 rest)) (drop 2 rest)) of
        Inl e \<Rightarrow> Inl e
      | Inr h \<Rightarrow> Inr ([''magic_string'' \<mapsto> PyBytes (take 6 pre),
                       ''version'' \<mapsto> PyBytes (drop 6 pre),
                       ''len'' \<mapsto> PyInt (int (from_bytes_little (take 2 rest)))] ++ h))"
  using assms by (simp add: read_npy_header_def Let_def)

text \<open>
  C6 (as the code does it). \<^verbatim>\<open>_read_npy_header\<close> never compares the signature or the
  version bytes with anything: it stores them in the record. Whether the read fails,
  and with which exception, depends only on the bytes after the first eight: two files
  that differ in their signature and version bytes alone either both fail with the
  same exception of the literal evaluator, or both return a header.
\<close>

theorem read_npy_header_ignores_signature:
  assumes "length pre = 8" and "length pre' = 8"
  shows "(case read_npy_header ev (pre @ rest) of Inl e \<Rightarrow> Some e | Inr h \<Rightarrow> None) =
         (case read_npy_header ev (pre' @ rest) of Inl e \<Rightarrow> Some e | Inr h \<Rightarrow> None)"
  by (simp add: read_npy_header_prefix [OF assms(1)] read_npy_header_prefix [OF assms(2)]
      split: sum.splits)

theorem read_npy_header_ignores_signature_witness:
  "length (take 8 bad_magic_file) = 8 \<and> length ([147, 78, 85, 77, 80, 89, 1, 0] :: byte list) = 8 \<and>
   (case read_npy_header eval_header_text (take 8 bad_magic_file @ drop 8 bad_magic_file)
      of Inl e \<Rightarrow> Some e | Inr h \<Rightarrow> None) =
   (case read_npy_header eval_header_text ([147, 78, 85, 77, 80, 89, 1, 0] @ drop 8 bad_magic_file)
      of Inl e \<Rightarrow> Some e | Inr h \<Rightarrow> None)"
  using read_npy_header_ignores_signature
    [of "take 8 bad_magic_file" "[147, 78, 85, 77, 80, 89, 1, 0]" eval_header_text
        "drop 8 bad_magic_file"]
  by (simp add: bad_magic_file_def)

text \<open>
  C6 (as stated) fails: a file whose first six bytes are zero (not the signature of an
  array file) and whose version bytes are 9, 9 is read without any exception, and the
  unexpected bytes come back in the record.
\<close>

theorem read_npy_header_bad_magic_counterexample:
  "\<not> isl (read_npy_header eval_header_text bad_magic_file) \<and>
   projr (read_npy_header eval_header_text bad_magic_file) ''magic_string'' =
     Some (PyBytes [0, 0, 0, 0, 0, 0]) \<and>
   projr (read_npy_header eval_header_text bad_magic_file) ''version'' = Some (PyBytes [9, 9]) \<and>
   projr (read_npy_header eval_header_text bad_magic_file) ''shape'' =
     Some (PyTuple [PyInt 3, PyInt 1])"
  by (simp add: read_npy_header_def bad_magic_file_def eval_header_text_def header_text_def
      from_bytes_little_def)

subsection \<open>Sparse projection\<close>
lemma project_row_Vec:
  assumes "distinct cs" and "length v = length cs"
  shows "is_projection cs ids v (map (\<lambda>c. case map_of (zip cs v) c of None \<Rightarrow> 0 | Some x \<Rightarrow> x) ids)"
proof -
  have present: "map_of (zip cs v) (cs ! i) = Some (v ! i)" if "i < length cs" for i
    using assms that by (simp add: map_of_zip_nth)
  have absent: "map_of (zip cs v) c = None" if "c \<notin> set cs" for c
    using assms that by (simp add: map_of_zip_is_None)
  show ?thesis
    unfolding is_projection_def
  proof (intro conjI allI impI)
    show "length (map (\<lambda>c. case map_of (zip cs v) c of None \<Rightarrow> 0 | Some x \<Rightarrow> x) ids) = length ids"
      by simp
  next
    fix j i assume "j < length ids" "i < length cs" "cs ! i = ids ! j"
    then show "map (\<lambda>c. case map_of (zip cs v) c of None \<Rightarrow> 0 | Some x \<Rightarrow> x) ids ! j = v ! i"
      using present [of i] by simp
  next
    fix j assume "j < length ids" "ids ! j \<notin> set cs"
    then show "map (\<lambda>c. case map_of (zip cs v) c of None \<Rightarrow> 0 | Some x \<Rightarrow> x) ids ! j = 0"
      using absent [of "ids ! j"] by simp
  qed
qed

lemma project_row_spec:
  assumes "distinct cs" and "\<forall>v \<in> set (nd_leaves x). length v = length cs"
  shows "nd_all2 (is_projection cs ids) x (project_row cs ids x)"
  using assms(2)
proof (induction x)
  case (Vec v)
  then show ?case using project_row_Vec [OF assms(1)] by simp
next
  case (Arr xs)
  then show ?case by (simp add: list_all2_map2 list_all2_same)
qed

text \<open>
  C4. For rows of shape \<open>[..., n_local]\<close> with a duplicate-free column map of that length
  per row, and duplicate-free requested ids, \<^verbatim>\<open>from_sparse\<close> returns one row per data
  row, of the same outer shape, whose vectors have one entry per requested id, in the
  order of the request: the data value at the local slot where the id stands in the
  column map of the row, and 0 when the id is absent from it.
\<close>

theorem from_sparse_entries:
  assumes "distinct ids" and "length colmap = length rows"
    and "\<forall>r<length rows. distinct (colmap ! r) \<and>
           (\<forall>v \<in> set (nd_leaves (rows ! r)). length v = length (colmap ! r))"
  shows "\<exists>out. from_sparse rows colmap ids = Inr out \<and> length out = length rows \<and>
           (\<forall>r<length rows. nd_all2 (is_projection (colmap ! r) ids) (rows ! r) (out ! r))"
  using assms by (simp add: from_sparse_def project_row_spec)

theorem from_sparse_entries_witness:
  "distinct [19, 21 :: nat] \<and>
   from_sparse [Vec [0, 1, 2 :: int], Vec [3, 4, 5]] [[20, 23, 21], [21, 19, 22]] [19, 21]
     = Inr [Vec [0, 2], Vec [4, 3]] \<and>
   nd_all2 (is_projection [21, 19, 22] [19, 21]) (Vec [3, 4, 5 :: int]) (Vec [4, 3])"
proof -
  have a: "distinct [19, 21 :: nat]" by simp
  have b: "length [[20, 23, 21], [21, 19, 22 :: nat]] = length [Vec [0, 1, 2 :: int], Vec [3, 4, 5]]"
    by simp
  have c: "\<forall>r<length [Vec [0, 1, 2 :: int], Vec [3, 4, 5]].
             distinct ([[20, 23, 21], [21, 19, 22 :: nat]] ! r) \<and>
             (\<forall>v \<in> set (nd_leaves ([Vec [0, 1, 2 :: int], Vec [3, 4, 5]] ! r)).
                length v = length ([[20, 23, 21], [21, 19, 22 :: nat]] ! r))"
    by (simp add: less_Suc_eq)
  have d: "from_sparse [Vec [0, 1, 2 :: int], Vec [3, 4, 5]] [[20, 23, 21], [21, 19, 22]] [19, 21]
     = Inr [Vec [0, 2], Vec [4, 3]]"
    by (simp add: from_sparse_def)
  from from_sparse_entries [OF a b c] d
  have "nd_all2 (is_projection ([[20, 23, 21], [21, 19, 22]] ! 1) [19, 21])
          ([Vec [0, 1, 2 :: int], Vec [3, 4, 5]] ! 1) ([Vec [0, 2], Vec [4, 3]] ! 1)"
    by (metis Inr_inject length_Cons list.size(3) lessI One_nat_def)
  with a d show ?thesis by simp
qed

text \<open>
  C5. A duplicate among the requested ids fails with \<^verbatim>\<open>NotImplementedError\<close>, as the
  test expects. The waveform export does not fail so for a template tensor with a
  column map: the truth value of an array with two channel ids is a \<^verbatim>\<open>ValueError\<close>,
  and a column map that holds the single id 0 counts as false, so that the tensor is
  exported as if it were dense.
\<close>

theorem sparse_templates_truth_value:
  "from_sparse [Vec [0, 1, 2 :: int], Vec [3, 4, 5]] [[20, 23, 21], [21, 19, 22]] [19, 19]
     = Inl NotImplementedError \<and>
   make_template_object argsort_stable two_probes_sparse 1 = Inl ValueError \<and>
   make_template_object argsort_stable one_slot_sparse 1 = Inr ([[[1]]], [[0]])"
  by (simp add: from_sparse_def make_template_object_def two_probes_sparse_def
        one_slot_sparse_def two_probes_def truth_value_def NCH_WAVEFORMS_def
        bindE_def getE_def template_inds_def template_waveform_def channel_distance_def
        l1_distance_def argsort_stable_def assign_row_def)

subsection \<open>The nearest channels of a template\<close>
lemma mapE_Inr:
  "mapE f xs = Inr ys \<Longrightarrow> length ys = length xs \<and> (\<forall>i<length xs. f (xs ! i) = Inr (ys ! i))"
proof (induction xs arbitrary: ys)
  case Nil
  then show ?case by simp
next
  case (Cons x xs)
  then obtain y ys' where y: "f x = Inr y" and ys': "mapE f xs = Inr ys'" and eq: "ys = y # ys'"
    by (auto split: sum.splits)
  from Cons.IH [OF ys'] y eq show ?case
    by (auto simp: nth_Cons split: nat.splits)
qed






























text \<open>
  C1. With one channel on each of two probes and a dense template tensor over both
  channels, the template whose peak is channel 0 (probe 0) gets the channels 0 and 1,
  and channel 1 is on probe 1: the infinite distance puts the channels of the other
  probes last and does not leave them out when the probe of the peak has fewer than
  \<open>min(32, nchall)\<close> channels.
\<close>

theorem cross_probe_channel_selected:
  "make_template_object argsort_stable two_probes 1 = Inr ([[[1, 2]]], [[0, 1]]) \<and>
   templates_channels two_probes ! 0 = 0 \<and>
   channel_probes two_probes ! 0 = 0 \<and>
   channel_probes two_probes ! 1 = 1"
  by (simp add: make_template_object_def two_probes_def truth_value_def NCH_WAVEFORMS_def
        bindE_def getE_def template_inds_def template_waveform_def channel_distance_def
        l1_distance_def argsort_stable_def assign_row_def)

subsection \<open>Depths in batches\<close>

lemma mapE_length: "mapE f xs = Inr ys \<Longrightarrow> length ys = length xs"
  by (simp add: mapE_Inr)

lemma mapE_append_eq:
  "mapE f (xs @ ys) =
     (case mapE f xs of Inl e \<Rightarrow> Inl e
      | Inr as \<Rightarrow> (case mapE f ys of Inl e \<Rightarrow> Inl e | Inr bs \<Rightarrow> Inr (as @ bs)))"
  by (induction xs) (auto split: sum.splits)

lemma mapE_append:
  "mapE f (xs @ ys) = Inr zs \<longleftrightarrow>
     (\<exists>as bs. mapE f xs = Inr as \<and> mapE f ys = Inr bs \<and> zs = as @ bs)"
  by (auto simp: mapE_append_eq split: sum.splits)

lemma batch_depths_length:
  assumes "batch_depths m sf xs = Inr a"
  shows "length a = length xs"
proof -
  from assms obtain fs cl ic yp where
    fs: "mapE (\<lambda>s. bindE (getE (items (data sf)) s)
                    (mapE (\<lambda>pcs. bindE (getE pcs 0) (\<lambda>x. Inr (x * x))))) xs = Inr fs"
    and cl: "mapE (getE (spike_clusters m)) xs = Inr cl"
    and ic: "(case cols sf of None \<Rightarrow> Inl TypeError | Some cs \<Rightarrow> mapE (getE cs) cl) = Inr ic"
    and yp: "mapE (mapE (\<lambda>ch. bindE (getE (channel_positions m) ch) (\<lambda>pos. getE pos 1))) ic = Inr yp"
    and a: "mapE (\<lambda>(y, f). weighted_depth y f) (zip yp fs) = Inr a"
    by (auto simp: batch_depths_def bindE_def split: sum.splits)
  from ic have "length ic = length cl" by (auto split: option.splits dest: mapE_length)
  with mapE_length [OF fs] mapE_length [OF cl] mapE_length [OF yp] mapE_length [OF a]
  show ?thesis by simp
qed

lemma batch_depths_append:
  "batch_depths m sf (xs @ ys) = Inr ds \<longleftrightarrow>
     (\<exists>a b. batch_depths m sf xs = Inr a \<and> batch_depths m sf ys = Inr b \<and> ds = a @ b)"
proof (cases "cols sf")
  case None
  then show ?thesis by (auto simp: batch_depths_def bindE_def split: sum.splits)
next
  case (Some cs)
  let ?F = "mapE (\<lambda>s. bindE (getE (items (data sf)) s)
                    (mapE (\<lambda>pcs. bindE (getE pcs 0) (\<lambda>x. Inr (x * x)))))"
  let ?C = "mapE (getE (spike_clusters m))"
  let ?I = "mapE (getE cs)"
  let ?Y = "mapE (mapE (\<lambda>ch. bindE (getE (channel_positions m) ch) (\<lambda>pos. getE pos 1)))"
  let ?W = "mapE (\<lambda>(y, f). weighted_depth y f)"
  have unfold: "batch_depths m sf zs = Inr r \<longleftrightarrow>
      (\<exists>fs cl ic yp. ?F zs = Inr fs \<and> ?C zs = Inr cl \<and> ?I cl = Inr ic \<and> ?Y ic = Inr yp \<and>
         ?W (zip yp fs) = Inr r)" for zs r
    using Some by (auto simp: batch_depths_def bindE_def split: sum.splits)
  show ?thesis
  proof
    assume "batch_depths m sf (xs @ ys) = Inr ds"
    then obtain fs cl ic yp where
      fs: "?F (xs @ ys) = Inr fs" and cl: "?C (xs @ ys) = Inr cl" and ic: "?I cl = Inr ic"
      and yp: "?Y ic = Inr yp" and w: "?W (zip yp fs) = Inr ds"
      unfolding unfold by blast
    from fs obtain f1 f2 where f: "?F xs = Inr f1" "?F ys = Inr f2" "fs = f1 @ f2"
      unfolding mapE_append by blast
    from cl obtain c1 c2 where c: "?C xs = Inr c1" "?C ys = Inr c2" "cl = c1 @ c2"
      unfolding mapE_append by blast
    from ic obtain i1 i2 where i: "?I c1 = Inr i1" "?I c2 = Inr i2" "ic = i1 @ i2"
      unfolding c(3) mapE_append by blast
    from yp obtain y1 y2 where y: "?Y i1 = Inr y1" "?Y i2 = Inr y2" "yp = y1 @ y2"
      unfolding i(3) mapE_append by blast
    have "length y1 = length f1"
      using mapE_length [OF f(1)] mapE_length [OF c(1)] mapE_length [OF i(1)] mapE_length [OF y(1)]
      by simp
    with w f(3) y(3) have "?W (zip y1 f1 @ zip y2 f2) = Inr ds" by simp
    then obtain a b where ab: "?W (zip y1 f1) = Inr a" "?W (zip y2 f2) = Inr b" "ds = a @ b"
      unfolding mapE_append by blast
    have "batch_depths m sf xs = Inr a" unfolding unfold using f(1) c(1) i(1) y(1) ab(1) by blast
    moreover have "batch_depths m sf ys = Inr b" unfolding unfold using f(2) c(2) i(2) y(2) ab(2) by blast
    ultimately show "\<exists>a b. batch_depths m sf xs = Inr a \<and> batch_depths m sf ys = Inr b \<and> ds = a @ b"
      using ab(3) by blast
  next
    assume "\<exists>a b. batch_depths m sf xs = Inr a \<and> batch_depths m sf ys = Inr b \<and> ds = a @ b"
    then obtain a b where a: "batch_depths m sf xs = Inr a" and b: "batch_depths m sf ys = Inr b"
      and ds: "ds = a @ b" by blast
    from a obtain f1 c1 i1 y1 where 1: "?F xs = Inr f1" "?C xs = Inr c1" "?I c1 = Inr i1"
      "?Y i1 = Inr y1" "?W (zip y1 f1) = Inr a" unfolding unfold by blast
    from b obtain f2 c2 i2 y2 where 2: "?F ys = Inr f2" "?C ys = Inr c2" "?I c2 = Inr i2"
      "?Y i2 = Inr y2" "?W (zip y2 f2) = Inr b" unfolding unfold by blast
    have len: "length y1 = length f1"
      using mapE_length [OF 1(1)] mapE_length [OF 1(2)] mapE_length [OF 1(3)] mapE_length [OF 1(4)]
      by simp
    have "?F (xs @ ys) = Inr (f1 @ f2)" unfolding mapE_append using 1(1) 2(1) by blast
    moreover have "?C (xs @ ys) = Inr (c1 @ c2)" unfolding mapE_append using 1(2) 2(2) by blast
    moreover have "?I (c1 @ c2) = Inr (i1 @ i2)" unfolding mapE_append using 1(3) 2(3) by blast
    moreover have "?Y (i1 @ i2) = Inr (y1 @ y2)" unfolding mapE_append using 1(4) 2(4) by blast
    moreover have "?W (zip (y1 @ y2) (f1 @ f2)) = Inr (a @ b)"
      using len 1(5) 2(5) by (simp add: mapE_append)
    ultimately show "batch_depths m sf (xs @ ys) = Inr ds"
      unfolding unfold ds by blast
  qed
qed

lemma upt_split: "a \<le> b \<Longrightarrow> b \<le> c \<Longrightarrow> [a..<c] = [a..<b] @ [b..<c]"
  by (metis le_Suc_ex upt_add_eq_append)

lemma depths_loop_result:
  assumes app: "\<And>xs ys ds. batch (xs @ ys) = Inr ds \<longleftrightarrow>
                  (\<exists>a b. batch xs = Inr a \<and> batch ys = Inr b \<and> ds = a @ b)"
    and len: "\<And>xs a. batch xs = Inr a \<Longrightarrow> length a = length xs"
    and pos: "0 < nbatch"
  shows "c \<le> nspi \<Longrightarrow> length acc = nspi \<Longrightarrow>
     \<exists>r. depths_loop batch nbatch nspi c acc = Some r \<and>
         (\<forall>ds. r = Inr ds \<longleftrightarrow> (\<exists>b. batch [c..<nspi] = Inr b \<and> ds = take c acc @ b))"
proof (induction "nspi - c" arbitrary: c acc rule: less_induct)
  case less
  let ?hi = "min (c + nbatch) nspi"
  have "c \<le> ?hi" "?hi \<le> nspi" using less.prems(1) by simp_all
  then have split: "[c..<nspi] = [c..<?hi] @ [?hi..<nspi]"
    by (rule upt_split)
  show ?case
  proof (cases "batch [c..<?hi]")
    case (Inl e)
    have "\<not> (\<exists>b. batch [c..<nspi] = Inr b)"
      using Inl app [of "[c..<?hi]" "[?hi..<nspi]"] split by auto
    with Inl show ?thesis
      by (subst depths_loop.simps) auto
  next
    case (Inr ds1)
    from len [OF Inr] have l1: "length ds1 = ?hi - c" by simp
    show ?thesis
    proof (cases "nspi \<le> c + nbatch")
      case True
      then have hi: "?hi = nspi" by simp
      have "assign_slice acc c ds1 = take c acc @ ds1"
        using l1 hi less.prems by (simp add: assign_slice_def)
      with Inr True hi show ?thesis
        by (subst depths_loop.simps) auto
    next
      case False
      then have hi: "?hi = c + nbatch" and lt: "c + nbatch < nspi" by simp_all
      let ?acc = "assign_slice acc c ds1"
      have l2: "length ?acc = nspi"
        using l1 hi lt less.prems by (simp add: assign_slice_def)
      have tk: "take (c + nbatch) ?acc = take c acc @ ds1"
        using l1 hi lt less.prems by (simp add: assign_slice_def)
      from pos lt have "nspi - (c + nbatch) < nspi - c" by simp
      from less.hyps [OF this _ l2] lt obtain r where
        r: "depths_loop batch nbatch nspi (c + nbatch) ?acc = Some r"
        and rr: "\<forall>ds. r = Inr ds \<longleftrightarrow>
                  (\<exists>b. batch [c + nbatch..<nspi] = Inr b \<and> ds = take (c + nbatch) ?acc @ b)"
        by auto
      have step: "depths_loop batch nbatch nspi c acc = Some r"
        using Inr False hi r by (subst depths_loop.simps) simp
      have "\<forall>ds. r = Inr ds \<longleftrightarrow> (\<exists>b. batch [c..<nspi] = Inr b \<and> ds = take c acc @ b)"
        using rr tk Inr app [of "[c..<c + nbatch]" "[c + nbatch..<nspi]"] split hi
        by auto
      with step show ?thesis by blast
    qed
  qed
qed

lemma spikes_depths_batched_result:
  assumes "0 < k"
  shows "\<exists>r. spikes_depths_batched k m sf = Some r \<and>
             (\<forall>ds. r = Inr ds \<longleftrightarrow> batch_depths m sf [0..<length (spike_times m)] = Inr ds)"
proof -
  let ?n = "length (spike_times m)"
  have c0: "0 \<le> ?n" and l0: "length (replicate ?n (Some (0::real))) = ?n" by simp_all
  have app: "\<And>xs ys ds. batch_depths m sf (xs @ ys) = Inr ds \<longleftrightarrow>
                  (\<exists>a b. batch_depths m sf xs = Inr a \<and> batch_depths m sf ys = Inr b \<and> ds = a @ b)"
    by (rule batch_depths_append)
  have len: "\<And>xs a. batch_depths m sf xs = Inr a \<Longrightarrow> length a = length xs"
    by (rule batch_depths_length)
  from depths_loop_result [of "batch_depths m sf" k 0 ?n "replicate ?n (Some 0)",
        OF app len assms c0 l0]
  obtain r where r: "depths_loop (batch_depths m sf) k ?n 0 (replicate ?n (Some 0)) = Some r"
    and rr: "\<forall>ds. r = Inr ds \<longleftrightarrow>
               (\<exists>b. batch_depths m sf [0..<?n] = Inr b \<and> ds = take 0 (replicate ?n (Some 0)) @ b)"
    by blast
  from rr have "\<forall>ds. r = Inr ds \<longleftrightarrow> batch_depths m sf [0..<?n] = Inr ds"
    by (simp only: take_0 append_Nil) blast
  with r show ?thesis unfolding spikes_depths_batched_def by blast
qed

text \<open>
  C8. For every model and feature tensor and every two batch sizes greater than zero,
  the batched computation of the spike depths ends for both, raises for both or for
  neither, and returns the same array when it returns: the result on \<open>n\<close> spikes is
  that of the single batch of all the spikes, since no value is carried from one batch
  to the next.
\<close>

theorem depth_batch_invariance:
  assumes "0 < nbatch" and "0 < nbatch'"
  shows "\<exists>r r'. spikes_depths_batched nbatch m sf = Some r \<and>
                spikes_depths_batched nbatch' m sf = Some r' \<and>
                (isl r \<longleftrightarrow> isl r') \<and> (\<not> isl r \<longrightarrow> r = r')"
proof -
  let ?n = "length (spike_times m)"
  from spikes_depths_batched_result [OF assms(1), of m sf]
       spikes_depths_batched_result [OF assms(2), of m sf]
  obtain r r' where
    r: "spikes_depths_batched nbatch m sf = Some r"
       "\<forall>ds. r = Inr ds \<longleftrightarrow> batch_depths m sf [0..<?n] = Inr ds"
    and r': "spikes_depths_batched nbatch' m sf = Some r'"
       "\<forall>ds. r' = Inr ds \<longleftrightarrow> batch_depths m sf [0..<?n] = Inr ds"
    by blast
  have eq: "r = Inr ds \<longleftrightarrow> r' = Inr ds" for ds
    using r(2) r'(2) by blast
  have "isl r \<longleftrightarrow> isl r'"
  proof (cases r)
    case (Inl e)
    then have "\<not> (\<exists>ds. r' = Inr ds)" using eq by auto
    then have "isl r'" by (cases r') auto
    with Inl show ?thesis by simp
  next
    case (Inr ds)
    then have "r' = Inr ds" using eq by blast
    with Inr show ?thesis by simp
  qed
  moreover have "\<not> isl r \<longrightarrow> r = r'"
  proof (cases r)
    case (Inl e)
    then show ?thesis by simp
  next
    case (Inr ds)
    then have "r' = Inr ds" using eq by blast
    with Inr show ?thesis by simp
  qed
  ultimately show ?thesis using r(1) r'(1) by blast
qed

theorem depth_batch_invariance_witness:
  "(0::nat) < 1 \<and> (0::nat) < 50000 \<and>
   spikes_depths_batched 1 two_probes pc_features = Some (Inr [Some 16, Some 2]) \<and>
   spikes_depths_batched 50000 two_probes pc_features = Some (Inr [Some 16, Some 2])"
proof -
  have a: "(0::nat) < 1" and b: "(0::nat) < 50000" by simp_all
  have one: "spikes_depths_batched 1 two_probes pc_features = Some (Inr [Some 16, Some 2])"
    by (simp add: spikes_depths_batched_def depths_loop.simps two_probes_def pc_features_def
        batch_depths_def bindE_def getE_def weighted_depth_def broadcast2_def assign_slice_def)
  from depth_batch_invariance [OF a b, of two_probes pc_features] one
  have "spikes_depths_batched 50000 two_probes pc_features = Some (Inr [Some 16, Some 2])"
    by auto
  with a b one show ?thesis by simp
qed

subsection \<open>The same source and destination\<close>

text \<open>
  C7. When the destination resolves to the source directory, \<^verbatim>\<open>convert\<close> raises
  \<^verbatim>\<open>IOError\<close> (the configuration error of the specification) and leaves the file
  system as it was: no directory is made and no file is written, copied, renamed or
  deleted, and the journal of changes is the one from before the call.
\<close>

theorem convert_same_directory:
  assumes "path_resolve e out_path = path_resolve e (dir_path m)"
  shows "convert e m out_path force label ampfactor fs = Some (Some IOError, fs)"
  using assms by (simp add: convert_def)

theorem convert_same_directory_witness:
  "path_resolve posix ''ks'' = path_resolve posix (dir_path two_probes) \<and>
   convert posix two_probes ''ks'' True ''probe00'' 2 ks_dir = Some (Some IOError, ks_dir)"
  using convert_same_directory [of posix "''ks''" two_probes True "''probe00''" 2 ks_dir]
  by (simp add: posix_def two_probes_def)

subsection \<open>What a stage changes\<close>

lemma extends_refl: "extends fs fs []"
  by (simp add: extends_def)






lemma stable_dir: "stable (\<lambda>fs. d \<in> set (dirs fs)) S"
  unfolding stable_def extends_def by blast

lemma footprintI:
  assumes "stable P S"
    and "\<And>fs. P fs \<Longrightarrow> \<exists>new. extends fs (snd (st fs)) new \<and> set new \<subseteq> S"
  shows "footprint P S st"
  unfolding footprint_def using assms unfolding stable_def by blast










lemma footprint_if:
  assumes "footprint (\<lambda>fs. P fs) S f" and "footprint P S g"
  shows "footprint P S (\<lambda>fs. if c fs then f fs else g fs)"
  using assms unfolding footprint_def by simp






lemma footprint_ensure_dir_exists:
  assumes "stable P S" and "Mkdir d \<in> S"
  shows "footprint P S (ensure_dir_exists d)"
proof (rule footprintI [OF assms(1)])
  fix fs
  show "\<exists>new. extends fs (snd (ensure_dir_exists d fs)) new \<and> set new \<subseteq> S"
  proof (cases "d \<in> set (dirs fs)")
    case True
    then show ?thesis
      by (intro exI [of _ "[]"]) (simp add: ensure_dir_exists_def extends_refl)
  next
    case False
    then have "extends fs (snd (ensure_dir_exists d fs)) [Mkdir d]"
      by (auto simp: extends_def ensure_dir_exists_def file_exists_def)
    with assms(2) show ?thesis by (intro exI [of _ "[Mkdir d]"]) simp
  qed
qed











lemma convert_unfold:
  "convert e m out_path force label ampfactor fs =
     (if path_resolve e out_path = path_resolve e (dir_path m) then Some (Some IOError, fs)
      else
        case first_stages e m out_path force ampfactor fs of
          (Some err, fs1) \<Rightarrow> Some (Some err, fs1)
        | (None, fs1) \<Rightarrow>
            (case make_depths e m out_path fs1 of
               None \<Rightarrow> None
             | Some (Some err, fs2) \<Rightarrow> Some (Some err, fs2)
             | Some (None, fs2) \<Rightarrow> Some (last_stages e m out_path label ampfactor fs2)))"
  by (simp add: convert_def first_stages_def last_stages_def split: prod.splits option.splits)

lemma spikes_depths_batched_Some: "\<exists>r. spikes_depths_batched default_nbatch m sf = Some r"
proof -
  have "0 < default_nbatch" by (simp add: default_nbatch_def)
  from spikes_depths_batched_result [OF this, of m sf]
  obtain r where "spikes_depths_batched default_nbatch m sf = Some r" by (elim exE conjE)
  then show ?thesis by (rule exI)
qed

lemma make_depths_cases:
  obtains (fail) err where "make_depths e m out_path fs = Some (Some err, fs)"
  | (save) cdepths sdepths where
      "bindE (np_load fs (join e out_path ''clusters.channels.npy'')) (clusters_depths m) = Inr cdepths"
      "(case sparse_features m of
          None \<Rightarrow> Some (bindE (mapE (getE cdepths) (spike_clusters m)) (\<lambda>ds. Inr (map Some ds)))
        | Some sf \<Rightarrow> spikes_depths_batched default_nbatch m sf) = Some (Inr sdepths)"
      "make_depths e m out_path fs =
         Some (and_then (save_npy e out_path ''spikes.depths.npy''
                           (FloatArray [length sdepths] sdepths))
                        (save_npy e out_path ''clusters.depths.npy'' (floats1 cdepths)) fs)"
proof (cases "bindE (np_load fs (join e out_path ''clusters.channels.npy'')) (clusters_depths m)")
  case (Inl err)
  then have "make_depths e m out_path fs = Some (Some err, fs)" by (simp add: make_depths_def)
  then show ?thesis by (rule fail)
next
  case (Inr cdepths)
  let ?sd = "case sparse_features m of
          None \<Rightarrow> Some (bindE (mapE (getE cdepths) (spike_clusters m)) (\<lambda>ds. Inr (map Some ds)))
        | Some sf \<Rightarrow> spikes_depths_batched default_nbatch m sf"
  have "\<exists>r. ?sd = Some r"
    using spikes_depths_batched_Some by (cases "sparse_features m") auto
  then obtain r where r: "?sd = Some r" by blast
  show ?thesis
  proof (cases r)
    case (Inl err)
    with Inr r have "make_depths e m out_path fs = Some (Some err, fs)"
      by (simp add: make_depths_def)
    then show ?thesis by (rule fail)
  next
    case sd: (Inr sdepths)
    with Inr r have "make_depths e m out_path fs =
         Some (and_then (save_npy e out_path ''spikes.depths.npy''
                           (FloatArray [length sdepths] sdepths))
                        (save_npy e out_path ''clusters.depths.npy'' (floats1 cdepths)) fs)"
      by (simp add: make_depths_def)
    with Inr r sd show ?thesis by (intro save) simp_all
  qed
qed

lemma make_depths_Some: "\<exists>r fs'. make_depths e m out_path fs = Some (r, fs')"
proof (cases rule: make_depths_cases [of e m out_path fs])
  case (fail err)
  then show ?thesis by blast
next
  case (save cdepths sdepths)
  then show ?thesis by (metis surj_pair)
qed



lemma convert_run:
  assumes ne: "path_resolve e out_path \<noteq> path_resolve e (dir_path m)"
    and run: "convert e m out_path force label ampfactor fs = Some (r, fs')"
  obtains (first) err where
      "first_stages e m out_path force ampfactor fs = (Some err, fs')" "r = Some err"
  | (depths) fs1 err where
      "first_stages e m out_path force ampfactor fs = (None, fs1)"
      "make_depths e m out_path fs1 = Some (Some err, fs')" "r = Some err"
  | (last) fs1 fs2 where
      "first_stages e m out_path force ampfactor fs = (None, fs1)"
      "make_depths e m out_path fs1 = Some (None, fs2)"
      "last_stages e m out_path label ampfactor fs2 = (r, fs')"
proof -
  obtain r1 fs1 where f1: "first_stages e m out_path force ampfactor fs = (r1, fs1)"
    by (rule prod.exhaust)
  obtain r2 fs2 where f2: "make_depths e m out_path fs1 = Some (r2, fs2)"
    using make_depths_Some by blast
  show ?thesis
  proof (cases r1)
    case (Some err)
    from run have "r = Some err \<and> fs' = fs1"
      using ne by (simp add: convert_unfold f1 Some)
    with f1 Some show ?thesis by (intro first [of err]) simp_all
  next
    case None
    show ?thesis
    proof (cases r2)
      case (Some err)
      from run have "r = Some err \<and> fs' = fs2"
        using ne by (simp add: convert_unfold f1 None f2 Some)
      with f1 None f2 Some show ?thesis by (intro depths [of fs1 err]) simp_all
    next
      case r2: None
      from run have "last_stages e m out_path label ampfactor fs2 = (r, fs')"
        using ne by (simp add: convert_unfold f1 None f2 r2)
      with f1 None f2 r2 show ?thesis by (intro last [of fs1 fs2]) simp_all
    qed
  qed
qed



lemma join_neq:
  assumes "path_resolve e a \<noteq> path_resolve e b"
  shows "join e a n \<noteq> join e b n'"
  using assms by (simp add: join_def)






subsection \<open>The peak channels of the clusters\<close>



end
